theory Spec2Isabelle
  imports Complex_Main
begin

section \<open>Python values and errors\<close>

text \<open>
  The module \<^verbatim>\<open>tools.py\<close> is a collection of helpers scripted against a 3D editor.
  Every \<^verbatim>\<open>raise\<close> of the module, every exception of the \<^verbatim>\<open>math\<close> functions it calls
  and every refusal of a host operator is a value \<open>Inl e\<close> of the result type.

  Python's floats are IEEE doubles. Two models of the arithmetic are used. The exact one
  computes in the reals; it carries the properties that do not depend on rounding. The
  double-precision one rounds every operation to the nearest double; it is the one used
  where rounding decides whether the code raises.
\<close>

datatype error = ValueError | ZeroDivisionError | IndexError | ReferenceError | RuntimeError

subsection \<open>Exact arithmetic\<close>

text \<open>\<^verbatim>\<open>math.sqrt\<close> raises ValueError below zero, \<^verbatim>\<open>math.acos\<close> outside \<open>[-1, 1]\<close>,
  and float division raises ZeroDivisionError on a zero divisor.\<close>

definition math_sqrt :: "real \<Rightarrow> error + real" where
  "math_sqrt r = (if r < 0 then Inl ValueError else Inr (sqrt r))"

definition math_acos :: "real \<Rightarrow> error + real" where
  "math_acos r = (if r < - 1 \<or> 1 < r then Inl ValueError else Inr (arccos r))"

definition float_div :: "real \<Rightarrow> real \<Rightarrow> error + real" where
  "float_div p q = (if q = 0 then Inl ZeroDivisionError else Inr (p / q))"

subsection \<open>Double-precision arithmetic\<close>

text \<open>
  A double is \<open>n * 2 ^ e\<close> with \<open>\<bar>n\<bar> < 2 ^ 53\<close> and \<open>e \<ge> -1074\<close>. \<open>double_round\<close> is
  rounding to the nearest double, ties to even: the exponent of the result's last place
  is 52 below the exponent of the value, and not below \<open>-1074\<close> (subnormal numbers).
  The sum, difference, product and quotient of two doubles and the square root of a
  double are the rounded exact results. Results beyond the largest double (overflow to
  infinity, and the OverflowError of \<^verbatim>\<open>math.pow\<close>) are outside this model.
\<close>

definition round_half_even :: "real \<Rightarrow> int" where
  "round_half_even x =
     (let f = \<lfloor>x\<rfloor>
      in if x - of_int f < 1 / 2 then f
         else if 1 / 2 < x - of_int f then f + 1
         else if even f then f else f + 1)"

definition double_exponent :: "real \<Rightarrow> int" where
  "double_exponent x = max \<lfloor>log 2 \<bar>x\<bar>\<rfloor> (- 1022) - 52"

definition double_round :: "real \<Rightarrow> real" where
  "double_round x =
     (if x = 0 then 0
      else of_int (round_half_even (x / 2 powr of_int (double_exponent x)))
             * 2 powr of_int (double_exponent x))"

definition double_add :: "real \<Rightarrow> real \<Rightarrow> real" where
  "double_add p q = double_round (p + q)"

definition double_sub :: "real \<Rightarrow> real \<Rightarrow> real" where
  "double_sub p q = double_round (p - q)"

definition double_mul :: "real \<Rightarrow> real \<Rightarrow> real" where
  "double_mul p q = double_round (p * q)"

definition double_div :: "real \<Rightarrow> real \<Rightarrow> error + real" where
  "double_div p q = (if q = 0 then Inl ZeroDivisionError else Inr (double_round (p / q)))"

text \<open>\<^verbatim>\<open>math.pow(p, n)\<close> for a natural exponent, and \<^verbatim>\<open>math.sqrt\<close>.\<close>

definition math_pow :: "real \<Rightarrow> nat \<Rightarrow> real" where
  "math_pow p n = double_round (p ^ n)"

definition math_sqrt_double :: "real \<Rightarrow> error + real" where
  "math_sqrt_double r = (if r < 0 then Inl ValueError else Inr (double_round (sqrt r)))"

text \<open>\<^verbatim>\<open>math.acos\<close> raises ValueError outside \<open>[-1, 1]\<close>; inside, its value is the one of
  the platform's C library, a parameter.\<close>

definition math_acos_double :: "(real \<Rightarrow> real) \<Rightarrow> real \<Rightarrow> error + real" where
  "math_acos_double libm_acos r =
     (if r < - 1 \<or> 1 < r then Inl ValueError else Inr (libm_acos r))"

text \<open>\<^verbatim>\<open>math.degrees(r)\<close> is \<open>r\<close> times the constant \<open>180 / pi\<close>, both in doubles.\<close>

definition math_degrees_double :: "real \<Rightarrow> real" where
  "math_degrees_double r = double_mul r (double_round (180 / double_round pi))"

section \<open>Vectors and mesh vertices\<close>

record Vector =
  vx :: real
  vy :: real
  vz :: real

text \<open>A vertex of a bmesh: \<^verbatim>\<open>v.index\<close> and \<^verbatim>\<open>v.co\<close>.\<close>

record BMVert =
  index :: nat
  co :: Vector

subsection \<open>Planar angle, in exact arithmetic\<close>

definition get_distance_between_points :: "BMVert \<Rightarrow> BMVert \<Rightarrow> error + real" where
  "get_distance_between_points v0 v1 =
     math_sqrt ((vx (co v0) - vx (co v1)) ^ 2 +
                (vy (co v0) - vy (co v1)) ^ 2 +
                (vz (co v0) - vz (co v1)) ^ 2)"

text \<open>The squared distance of two points, the argument of the square root above.\<close>

definition dist_sq :: "Vector \<Rightarrow> Vector \<Rightarrow> real" where
  "dist_sq p q = (vx p - vx q) ^ 2 + (vy p - vy q) ^ 2 + (vz p - vz q) ^ 2"

definition get_planar_angle :: "BMVert \<Rightarrow> BMVert \<Rightarrow> BMVert \<Rightarrow> error + real" where
  "get_planar_angle v0 v1 v2 =
     (case get_distance_between_points v0 v2 of Inl e \<Rightarrow> Inl e | Inr a \<Rightarrow>
     (case get_distance_between_points v0 v1 of Inl e \<Rightarrow> Inl e | Inr b \<Rightarrow>
     (case get_distance_between_points v1 v2 of Inl e \<Rightarrow> Inl e | Inr c \<Rightarrow>
        if b = 0 \<or> c = 0 then Inr 0
        else (case float_div (b * b + c * c - a * a) (2 * b * c) of
                Inl e \<Rightarrow> Inl e
              | Inr cos_a \<Rightarrow> math_acos cos_a))))"

subsection \<open>Planar angle and collapse of a vertex, in doubles\<close>

text \<open>The same two functions with every operation rounded, in the order Python evaluates
  them, and \<^verbatim>\<open>collapse_points_on_line\<close>, which compares the angle in degrees with the
  threshold.\<close>

definition get_distance_between_points_double :: "BMVert \<Rightarrow> BMVert \<Rightarrow> error + real" where
  "get_distance_between_points_double v0 v1 =
     math_sqrt_double
       (double_add
          (double_add (math_pow (double_sub (vx (co v0)) (vx (co v1))) 2)
                      (math_pow (double_sub (vy (co v0)) (vy (co v1))) 2))
          (math_pow (double_sub (vz (co v0)) (vz (co v1))) 2))"

definition get_planar_angle_double ::
  "(real \<Rightarrow> real) \<Rightarrow> BMVert \<Rightarrow> BMVert \<Rightarrow> BMVert \<Rightarrow> error + real" where
  "get_planar_angle_double libm_acos v0 v1 v2 =
     (case get_distance_between_points_double v0 v2 of Inl e \<Rightarrow> Inl e | Inr a \<Rightarrow>
     (case get_distance_between_points_double v0 v1 of Inl e \<Rightarrow> Inl e | Inr b \<Rightarrow>
     (case get_distance_between_points_double v1 v2 of Inl e \<Rightarrow> Inl e | Inr c \<Rightarrow>
        if b = 0 \<or> c = 0 then Inr 0
        else (case double_div
                     (double_sub (double_add (double_mul b b) (double_mul c c))
                                 (double_mul a a))
                     (double_mul (double_mul 2 b) c) of
                Inl e \<Rightarrow> Inl e
              | Inr cos_a \<Rightarrow> math_acos_double libm_acos cos_a))))"

definition collapse_points_on_line ::
  "(real \<Rightarrow> real) \<Rightarrow> BMVert \<Rightarrow> BMVert \<Rightarrow> BMVert \<Rightarrow> real \<Rightarrow> error + BMVert" where
  "collapse_points_on_line libm_acos v0 v1 v2 angle =
     (case get_planar_angle_double libm_acos v0 v1 v2 of
        Inl e \<Rightarrow> Inl e
      | Inr a \<Rightarrow> Inr (if math_degrees_double a > angle then v1\<lparr>co := co v0\<rparr> else v1))"

section \<open>Collapsing the vertices of a line\<close>

text \<open>
  The mesh data of an object (\<^verbatim>\<open>o.data\<close>): the coordinates of its vertices and its edges,
  each edge holding the indices of its two vertices. \<^verbatim>\<open>get_bmesh_for_object\<close> loads it
  into a bmesh, whose vertices carry their position as \<^verbatim>\<open>index\<close>; an edge of the bmesh
  is kept as the pair \<^verbatim>\<open>(e.verts[0].index, e.verts[1].index)\<close>, the only thing the module
  reads of it.
\<close>

record Mesh =
  vertices :: "Vector list"
  mesh_edges :: "(nat \<times> nat) list"

record BMesh =
  verts :: "BMVert list"
  edges :: "(nat \<times> nat) list"

definition get_bmesh_for_object :: "Mesh \<Rightarrow> BMesh" where
  "get_bmesh_for_object m =
     \<lparr>verts = map (\<lambda>i. \<lparr>index = i, co = vertices m ! i\<rparr>) [0..<length (vertices m)],
      edges = mesh_edges m\<rparr>"

definition to_mesh :: "BMesh \<Rightarrow> Mesh" where
  "to_mesh bm = \<lparr>vertices = map co (verts bm), mesh_edges = edges bm\<rparr>"

text \<open>\<^verbatim>\<open>update_object_from_bmesh\<close> writes the bmesh back and runs the host's
  \<^verbatim>\<open>remove_doubles\<close> operator on the whole mesh; the operator is a parameter.\<close>

definition update_object_from_bmesh :: "(Mesh \<Rightarrow> Mesh) \<Rightarrow> BMesh \<Rightarrow> Mesh" where
  "update_object_from_bmesh remove_doubles bm = remove_doubles (to_mesh bm)"

definition get_vertex_neighbors :: "BMesh \<Rightarrow> nat \<Rightarrow> nat list" where
  "get_vertex_neighbors bm v0 =
     fold (\<lambda>e acc. if fst e = v0 then acc @ [snd e]
                    else if snd e = v0 then acc @ [fst e]
                    else acc)
          (edges bm) []"

text \<open>\<^verbatim>\<open>bm.verts[k]\<close>: IndexError beyond the end.\<close>

definition verts_at :: "BMesh \<Rightarrow> nat \<Rightarrow> error + BMVert" where
  "verts_at bm k = (if k < length (verts bm) then Inr (verts bm ! k) else Inl IndexError)"

text \<open>The body of the loop of \<^verbatim>\<open>collapse_edges_in_order\<close> for the vertex at position \<open>i\<close>,
  and the loop over the positions.\<close>

definition collapse_vertex ::
  "(real \<Rightarrow> real) \<Rightarrow> real \<Rightarrow> nat \<Rightarrow> BMesh \<Rightarrow> error + BMesh" where
  "collapse_vertex libm_acos angle i bm =
     (let v = verts bm ! i;
          neighbors = get_vertex_neighbors bm (index v)
      in if length neighbors = 2
         then (case verts_at bm (neighbors ! 0) of Inl e \<Rightarrow> Inl e | Inr n0 \<Rightarrow>
              (case verts_at bm (neighbors ! 1) of Inl e \<Rightarrow> Inl e | Inr n1 \<Rightarrow>
              (case collapse_points_on_line libm_acos n0 v n1 angle of
                 Inl e \<Rightarrow> Inl e
               | Inr v' \<Rightarrow> Inr (bm\<lparr>verts := (verts bm)[i := v']\<rparr>))))
         else Inr bm)"

fun collapse_loop ::
  "(real \<Rightarrow> real) \<Rightarrow> real \<Rightarrow> nat list \<Rightarrow> BMesh \<Rightarrow> error + BMesh" where
  "collapse_loop libm_acos angle [] bm = Inr bm"
| "collapse_loop libm_acos angle (i # rest) bm =
     (case collapse_vertex libm_acos angle i bm of
        Inl e \<Rightarrow> Inl e
      | Inr bm' \<Rightarrow> collapse_loop libm_acos angle rest bm')"

definition collapse_edges_in_order ::
  "(real \<Rightarrow> real) \<Rightarrow> (Mesh \<Rightarrow> Mesh) \<Rightarrow> Mesh \<Rightarrow> real \<Rightarrow> error + Mesh" where
  "collapse_edges_in_order libm_acos remove_doubles m angle =
     (let bm = get_bmesh_for_object m
      in case collapse_loop libm_acos angle [0..<length (verts bm)] bm of
           Inl e \<Rightarrow> Inl e
         | Inr bm' \<Rightarrow> Inr (update_object_from_bmesh remove_doubles bm'))"

section \<open>Scene objects\<close>

text \<open>
  The part of the host's scene the module reads and writes. \<^verbatim>\<open>bpy.data.objects\<close> is the
  list \<open>objects\<close>; an object is referred to by its name, which the host keeps unique, and
  \<^verbatim>\<open>None\<close> is the reference \<open>None\<close>. \<open>active\<close> is
  \<^verbatim>\<open>bpy.context.scene.objects.active\<close> and \<open>mode\<close> the editing mode.
\<close>

record Object =
  name :: string
  type :: string
  select :: bool
  layers :: "bool list"
  location :: Vector

record Scene =
  objects :: "Object list"
  active :: "string option"
  mode :: string

subsection \<open>Host operators\<close>

text \<open>
  The operators of the host that the module calls, at their documented effect on this
  state. \<^verbatim>\<open>bpy.ops.object.select_all(action=...)\<close> sets the selection flag of every
  object and \<^verbatim>\<open>bpy.ops.object.delete()\<close> removes the selected objects (an active object
  that is removed is no longer active); the host refuses both outside object mode, and
  the call then raises RuntimeError. \<^verbatim>\<open>bpy.ops.object.mode_set(mode=...)\<close> sets the mode.
\<close>

datatype select_action = SELECT | DESELECT

definition bpy_ops_object_select_all :: "select_action \<Rightarrow> Scene \<Rightarrow> error + Scene" where
  "bpy_ops_object_select_all action s =
     (if mode s \<noteq> ''OBJECT'' then Inl RuntimeError
      else Inr (s\<lparr>objects := map (\<lambda>ob. ob\<lparr>select := (action = SELECT)\<rparr>) (objects s)\<rparr>))"

definition bpy_ops_object_mode_set :: "string \<Rightarrow> Scene \<Rightarrow> Scene" where
  "bpy_ops_object_mode_set m s = s\<lparr>mode := m\<rparr>"

definition bpy_ops_object_delete :: "Scene \<Rightarrow> error + Scene" where
  "bpy_ops_object_delete s =
     (if mode s \<noteq> ''OBJECT'' then Inl RuntimeError
      else Inr (s\<lparr>objects := filter (\<lambda>ob. \<not> select ob) (objects s),
                  active := (case active s of
                               None \<Rightarrow> None
                             | Some nm \<Rightarrow>
                                 if list_ex (\<lambda>ob. name ob = nm \<and> select ob) (objects s)
                                 then None else Some nm)\<rparr>))"

subsection \<open>Selection and deletion\<close>

definition delete_selected_objects :: "Scene \<Rightarrow> error + Scene" where
  "delete_selected_objects s = bpy_ops_object_delete s"

definition delete_all :: "Scene \<Rightarrow> error + Scene" where
  "delete_all s =
     (case bpy_ops_object_select_all SELECT s of
        Inl e \<Rightarrow> Inl e
      | Inr s1 \<Rightarrow> delete_selected_objects s1)"

definition delete_all_cameras :: "Scene \<Rightarrow> error + Scene" where
  "delete_all_cameras s =
     (case bpy_ops_object_select_all DESELECT s of
        Inl e \<Rightarrow> Inl e
      | Inr s1 \<Rightarrow>
          delete_selected_objects
            (s1\<lparr>objects :=
                  map (\<lambda>ob. if type ob = ''CAMERA'' then ob\<lparr>select := True\<rparr> else ob)
                      (objects s1)\<rparr>))"

text \<open>A reference to an object that is no longer in \<^verbatim>\<open>bpy.data.objects\<close> raises
  ReferenceError in the host when it is used.\<close>

definition select_object :: "string option \<Rightarrow> Scene \<Rightarrow> error + Scene" where
  "select_object obj s =
     (case obj of
        None \<Rightarrow> Inl ValueError
      | Some nm \<Rightarrow>
          (case bpy_ops_object_select_all DESELECT s of
             Inl e \<Rightarrow> Inl e
           | Inr s1 \<Rightarrow>
               if \<not> list_ex (\<lambda>ob. name ob = nm) (objects s1) then Inl ReferenceError
               else (let s2 = s1\<lparr>active := Some nm\<rparr>;
                         s3 = bpy_ops_object_mode_set ''OBJECT'' s2;
                         s4 = s3\<lparr>objects :=
                                   map (\<lambda>ob. if name ob = nm then ob\<lparr>select := True\<rparr> else ob)
                                       (objects s3)\<rparr>;
                         s5 = s4\<lparr>active := active s4\<rparr>
                     in Inr s5)))"

definition delete_object :: "string option \<Rightarrow> Scene \<Rightarrow> error + Scene" where
  "delete_object obj s =
     (case select_object obj s of
        Inl e \<Rightarrow> Inl e
      | Inr s1 \<Rightarrow> delete_selected_objects s1)"

subsection \<open>Import of a scan\<close>

text \<open>\<^verbatim>\<open>bpy.ops.import_scene.fbx\<close> is the host's importer: a parameter that, for a file
  path and a scene, gives the scene with the file's objects added, or raises.\<close>

definition import_fbx ::
  "(string \<Rightarrow> Scene \<Rightarrow> error + Scene) \<Rightarrow> string \<Rightarrow> Scene \<Rightarrow> error + Scene" where
  "import_fbx import_scene_fbx fbx_filepath s = import_scene_fbx fbx_filepath s"

definition import_agisoft_scan ::
  "(string \<Rightarrow> Scene \<Rightarrow> error + Scene) \<Rightarrow> string \<Rightarrow> Scene \<Rightarrow> error + (Object \<times> Scene)" where
  "import_agisoft_scan import_scene_fbx fbx_filepath s =
     (case import_fbx import_scene_fbx fbx_filepath s of
        Inl e \<Rightarrow> Inl e
      | Inr s1 \<Rightarrow>
          (case delete_all_cameras s1 of
             Inl e \<Rightarrow> Inl e
           | Inr s2 \<Rightarrow>
               if length (objects s2) \<noteq> 1 then Inl ValueError
               else Inr (objects s2 ! 0, s2)))"

subsection \<open>Layers\<close>

text \<open>Python's index into a sequence of length \<open>n\<close>: a negative index counts from the
  end, and an index outside \<open>[-n, n)\<close> raises IndexError.\<close>

definition py_index :: "nat \<Rightarrow> int \<Rightarrow> error + nat" where
  "py_index n i =
     (if 0 \<le> i \<and> i < int n then Inr (nat i)
      else if - int n \<le> i \<and> i < 0 then Inr (nat (int n + i))
      else Inl IndexError)"

definition move_object_to_layer :: "Object \<Rightarrow> int \<Rightarrow> error + Object" where
  "move_object_to_layer obj layer =
     (let i = (if layer = 0 then 9 else layer - 1)
      in case py_index (length (layers obj)) i of
           Inl e \<Rightarrow> Inl e
         | Inr k \<Rightarrow>
             Inr (fold (\<lambda>index ob. if int index \<noteq> i
                                    then ob\<lparr>layers := (layers ob)[index := False]\<rparr>
                                    else ob)
                       [0..<length (layers obj)]
                       (obj\<lparr>layers := (layers obj)[k := True]\<rparr>)))"

text \<open>The layers after the loop has passed the indices below \<open>m\<close>: each of them other
  than \<open>i\<close> is cleared.\<close>

definition cleared :: "int \<Rightarrow> nat \<Rightarrow> bool list \<Rightarrow> bool list" where
  "cleared i m bs = map (\<lambda>j. if j < m \<and> int j \<noteq> i then False else bs ! j) [0..<length bs]"

section \<open>UV coordinates of the cube map\<close>

text \<open>
  \<^verbatim>\<open>render_360_for_camera\<close> writes the UV coordinates of the 24 loops of the cube it has
  just added, \<^verbatim>\<open>m.uv_layers.active.data[k].uv = (u, v)\<close>, face by face, moving
  \<^verbatim>\<open>x_pos\<close> by \<open>1/6\<close> inside each face. These assignments read neither the camera nor
  the group. An assignment beyond the end of the data raises IndexError.
\<close>

type_synonym uv = "real \<times> real"

fun assign_uvs :: "(nat \<times> uv) list \<Rightarrow> uv list \<Rightarrow> error + uv list" where
  "assign_uvs [] d = Inr d"
| "assign_uvs ((k, p) # rest) d =
     (if k < length d then assign_uvs rest (d[k := p]) else Inl IndexError)"

text \<open>The four assignments of one face, at the loops \<open>k0 k1 k2 k3\<close> in the order written,
  and \<^verbatim>\<open>x_pos\<close> after them.\<close>

definition face_uvs :: "real \<Rightarrow> nat \<Rightarrow> nat \<Rightarrow> nat \<Rightarrow> nat \<Rightarrow> (nat \<times> uv) list \<times> real" where
  "face_uvs x_pos k0 k1 k2 k3 =
     ([(k0, (x_pos, 0)), (k1, (x_pos, 1)),
       (k2, (x_pos + 1 / 6, 0)), (k3, (x_pos + 1 / 6, 1))],
      x_pos + 1 / 6)"

definition render_360_for_camera_uvs :: "uv list \<Rightarrow> error + uv list" where
  "render_360_for_camera_uvs d =
     (let x_pos = 0;
          (px, x_pos) = face_uvs x_pos 8 11 9 10;
          (nx, x_pos) = face_uvs x_pos 0 3 1 2;
          (py, x_pos) = face_uvs x_pos 4 7 5 6;
          (ny, x_pos) = face_uvs x_pos 12 15 13 14;
          (pz, x_pos) = face_uvs x_pos 20 23 21 22;
          (nz, x_pos) = face_uvs x_pos 16 19 17 18
      in assign_uvs (px @ nx @ py @ ny @ pz @ nz) d)"

text \<open>The loops of the six faces, in the order \<open>+X, -X, +Y, -Y, +Z, -Z\<close> of the source's
  comments.\<close>

definition cube_faces :: "(nat \<times> nat \<times> nat \<times> nat) list" where
  "cube_faces = [(8, 11, 9, 10), (0, 3, 1, 2), (4, 7, 5, 6),
                 (12, 15, 13, 14), (20, 23, 21, 22), (16, 19, 17, 18)]"

section \<open>Properties of the planar angle in exact arithmetic\<close>

lemma dist_sq_nonneg: "0 \<le> dist_sq p q"
  by (simp add: dist_sq_def)

lemma dist_sq_zero_iff: "dist_sq p q = 0 \<longleftrightarrow> p = q"
proof
  assume "dist_sq p q = 0"
  then have "(vx p - vx q)\<^sup>2 + ((vy p - vy q)\<^sup>2 + (vz p - vz q)\<^sup>2) = 0"
    by (simp add: dist_sq_def)
  then have "vx p = vx q \<and> vy p = vy q \<and> vz p = vz q"
    by (simp add: sum_power2_eq_zero_iff add_nonneg_eq_0_iff)
  then show "p = q" by simp
next
  assume "p = q"
  then show "dist_sq p q = 0" by (simp add: dist_sq_def)
qed

lemma get_distance_total:
  "get_distance_between_points v0 v1 = Inr (sqrt (dist_sq (co v0) (co v1)))"
proof -
  have "\<not> dist_sq (co v0) (co v1) < 0"
    using dist_sq_nonneg [of "co v0" "co v1"] by linarith
  then show ?thesis
    unfolding dist_sq_def by (simp add: get_distance_between_points_def math_sqrt_def)
qed

lemma cauchy3:
  fixes a1 a2 a3 b1 b2 b3 :: real
  shows "(a1 * b1 + a2 * b2 + a3 * b3)\<^sup>2 \<le> (a1\<^sup>2 + a2\<^sup>2 + a3\<^sup>2) * (b1\<^sup>2 + b2\<^sup>2 + b3\<^sup>2)"
proof -
  have "(a1\<^sup>2 + a2\<^sup>2 + a3\<^sup>2) * (b1\<^sup>2 + b2\<^sup>2 + b3\<^sup>2) - (a1 * b1 + a2 * b2 + a3 * b3)\<^sup>2
      = (a1 * b2 - a2 * b1)\<^sup>2 + (a1 * b3 - a3 * b1)\<^sup>2 + (a2 * b3 - a3 * b2)\<^sup>2"
    by (simp add: power2_eq_square algebra_simps)
  moreover have "0 \<le> (a1 * b2 - a2 * b1)\<^sup>2 + (a1 * b3 - a3 * b1)\<^sup>2 + (a2 * b3 - a3 * b2)\<^sup>2"
    by simp
  ultimately show ?thesis by linarith
qed

lemma law_of_cosines_bound:
  fixes p q r :: Vector
  defines "a \<equiv> sqrt (dist_sq p r)" and "b \<equiv> sqrt (dist_sq p q)" and "c \<equiv> sqrt (dist_sq q r)"
  shows "\<bar>b * b + c * c - a * a\<bar> \<le> 2 * b * c"
proof -
  define u1 u2 u3 w1 w2 w3 where "u1 = vx p - vx q" and "u2 = vy p - vy q" and "u3 = vz p - vz q"
    and "w1 = vx q - vx r" and "w2 = vy q - vy r" and "w3 = vz q - vz r"
  note d = u1_def u2_def u3_def w1_def w2_def w3_def
  have bb: "b * b = u1\<^sup>2 + u2\<^sup>2 + u3\<^sup>2"
    using dist_sq_nonneg [of p q] by (simp add: b_def dist_sq_def d)
  have cc: "c * c = w1\<^sup>2 + w2\<^sup>2 + w3\<^sup>2"
    using dist_sq_nonneg [of q r] by (simp add: c_def dist_sq_def d)
  have aa: "a * a = (u1 + w1)\<^sup>2 + (u2 + w2)\<^sup>2 + (u3 + w3)\<^sup>2"
    using dist_sq_nonneg [of p r] by (simp add: a_def dist_sq_def d)
  have e: "b * b + c * c - a * a = - 2 * (u1 * w1 + u2 * w2 + u3 * w3)"
    unfolding aa bb cc by (simp add: power2_eq_square algebra_simps)
  have "\<bar>u1 * w1 + u2 * w2 + u3 * w3\<bar> = sqrt ((u1 * w1 + u2 * w2 + u3 * w3)\<^sup>2)"
    by simp
  also have "\<dots> \<le> sqrt ((u1\<^sup>2 + u2\<^sup>2 + u3\<^sup>2) * (w1\<^sup>2 + w2\<^sup>2 + w3\<^sup>2))"
    using cauchy3 [of u1 w1 u2 w2 u3 w3] by (simp only: real_sqrt_le_iff)
  also have "\<dots> = b * c"
    by (simp add: real_sqrt_mult b_def c_def dist_sq_def d)
  finally show ?thesis unfolding e by simp
qed

lemma get_planar_angle_total:
  "get_planar_angle v0 v1 v2 =
     Inr (let a = sqrt (dist_sq (co v0) (co v2));
              b = sqrt (dist_sq (co v0) (co v1));
              c = sqrt (dist_sq (co v1) (co v2))
          in if b = 0 \<or> c = 0 then 0 else arccos ((b * b + c * c - a * a) / (2 * b * c)))"
proof -
  define a b c where "a = sqrt (dist_sq (co v0) (co v2))"
    and "b = sqrt (dist_sq (co v0) (co v1))" and "c = sqrt (dist_sq (co v1) (co v2))"
  have b0: "0 \<le> b" and c0: "0 \<le> c"
    by (simp_all add: b_def c_def dist_sq_nonneg)
  have bound: "\<bar>b * b + c * c - a * a\<bar> \<le> 2 * b * c"
    unfolding a_def b_def c_def by (rule law_of_cosines_bound)
  show ?thesis
  proof (cases "b = 0 \<or> c = 0")
    case True
    then show ?thesis
      by (simp add: get_planar_angle_def get_distance_total a_def b_def c_def)
  next
    case False
    then have pos: "0 < 2 * b * c" using b0 c0 by simp
    have "\<bar>(b * b + c * c - a * a) / (2 * b * c)\<bar> \<le> 1"
      using bound pos by (simp add: abs_if divide_simps split: if_splits)
    then have lo: "\<not> (b * b + c * c - a * a) / (2 * b * c) < - 1"
      and hi: "\<not> 1 < (b * b + c * c - a * a) / (2 * b * c)"
      by linarith+
    show ?thesis
      using False lo hi
      by (simp add: get_planar_angle_def get_distance_total float_div_def math_acos_def
          a_def b_def c_def Let_def)
  qed
qed

lemma sqrt16: "sqrt 16 = 4"
proof -
  have "sqrt ((4::real)\<^sup>2) = 4" by (simp only: real_sqrt_abs abs_numeral)
  then show ?thesis by simp
qed

text \<open>
  Claim C8. When the distance \<open>b\<close> from \<open>v0\<close> to \<open>v1\<close> or the distance \<open>c\<close> from
  \<open>v1\<close> to \<open>v2\<close> is zero, in particular when \<open>v1\<close> lies on \<open>v0\<close> or on \<open>v2\<close>,
  \<^verbatim>\<open>get_planar_angle\<close> returns 0. It never raises ZeroDivisionError: whenever both
  distances are nonzero the divisor \<open>2 * b * c\<close> is nonzero and the quotient is computed.
\<close>

theorem get_planar_angle_zero_distance:
  "(get_distance_between_points v0 v1 = Inr 0 \<or> get_distance_between_points v1 v2 = Inr 0
      \<longrightarrow> get_planar_angle v0 v1 v2 = Inr 0) \<and>
   (co v1 = co v0 \<or> co v1 = co v2
      \<longrightarrow> get_planar_angle v0 v1 v2 = Inr 0) \<and>
   get_planar_angle v0 v1 v2 \<noteq> Inl ZeroDivisionError \<and>
   (\<forall>a b c. get_distance_between_points v0 v2 = Inr a \<and>
            get_distance_between_points v0 v1 = Inr b \<and>
            get_distance_between_points v1 v2 = Inr c \<and> b \<noteq> 0 \<and> c \<noteq> 0
      \<longrightarrow> 2 * b * c \<noteq> 0 \<and>
          float_div (b * b + c * c - a * a) (2 * b * c) = Inr ((b * b + c * c - a * a) / (2 * b * c)))"
proof (intro conjI allI impI)
  assume "get_distance_between_points v0 v1 = Inr 0 \<or> get_distance_between_points v1 v2 = Inr 0"
  then show "get_planar_angle v0 v1 v2 = Inr 0"
    by (auto simp: get_planar_angle_def get_distance_total)
next
  assume "co v1 = co v0 \<or> co v1 = co v2"
  then have "dist_sq (co v0) (co v1) = 0 \<or> dist_sq (co v1) (co v2) = 0"
    by (auto simp: dist_sq_zero_iff)
  then show "get_planar_angle v0 v1 v2 = Inr 0"
    by (auto simp: get_planar_angle_total)
next
  show "get_planar_angle v0 v1 v2 \<noteq> Inl ZeroDivisionError"
    by (simp add: get_planar_angle_total)
next
  fix a b c :: real
  assume "get_distance_between_points v0 v2 = Inr a \<and>
            get_distance_between_points v0 v1 = Inr b \<and>
            get_distance_between_points v1 v2 = Inr c \<and> b \<noteq> 0 \<and> c \<noteq> 0"
  then show "2 * b * c \<noteq> 0" by simp
next
  fix a b c :: real
  assume "get_distance_between_points v0 v2 = Inr a \<and>
            get_distance_between_points v0 v1 = Inr b \<and>
            get_distance_between_points v1 v2 = Inr c \<and> b \<noteq> 0 \<and> c \<noteq> 0"
  then show "float_div (b * b + c * c - a * a) (2 * b * c) = Inr ((b * b + c * c - a * a) / (2 * b * c))"
    by (simp add: float_div_def)
qed

theorem get_planar_angle_zero_distance_witness:
  "get_planar_angle
     \<lparr>index = 0, co = \<lparr>vx = 1, vy = 2, vz = 3\<rparr>\<rparr>
     \<lparr>index = 1, co = \<lparr>vx = 1, vy = 2, vz = 3\<rparr>\<rparr>
     \<lparr>index = 2, co = \<lparr>vx = 5, vy = 0, vz = 0\<rparr>\<rparr> = Inr 0 \<and>
   get_planar_angle
     \<lparr>index = 0, co = \<lparr>vx = 5, vy = 0, vz = 0\<rparr>\<rparr>
     \<lparr>index = 1, co = \<lparr>vx = 1, vy = 2, vz = 3\<rparr>\<rparr>
     \<lparr>index = 2, co = \<lparr>vx = 1, vy = 2, vz = 3\<rparr>\<rparr> = Inr 0 \<and>
   float_div (2 * 2 + 2 * 2 - 4 * 4) (2 * 2 * 2) = Inr (- 1)"
proof -
  let ?ua = "\<lparr>index = 0, co = \<lparr>vx = 1, vy = 2, vz = 3\<rparr>\<rparr>"
  let ?va = "\<lparr>index = 1, co = \<lparr>vx = 1, vy = 2, vz = 3\<rparr>\<rparr>"
  let ?wb = "\<lparr>index = 2, co = \<lparr>vx = 5, vy = 0, vz = 0\<rparr>\<rparr>"
  let ?wa = "\<lparr>index = 0, co = \<lparr>vx = 5, vy = 0, vz = 0\<rparr>\<rparr>"
  let ?vb = "\<lparr>index = 2, co = \<lparr>vx = 1, vy = 2, vz = 3\<rparr>\<rparr>"
  let ?p0 = "\<lparr>index = 0, co = \<lparr>vx = 0, vy = 0, vz = 0\<rparr>\<rparr>"
  let ?p1 = "\<lparr>index = 1, co = \<lparr>vx = 2, vy = 0, vz = 0\<rparr>\<rparr>"
  let ?p2 = "\<lparr>index = 2, co = \<lparr>vx = 4, vy = 0, vz = 0\<rparr>\<rparr>"
  have e1: "co ?va = co ?ua \<or> co ?va = co ?wb" by simp
  have e2: "co ?va = co ?wa \<or> co ?va = co ?vb" by simp
  have d: "get_distance_between_points ?p0 ?p2 = Inr 4 \<and>
           get_distance_between_points ?p0 ?p1 = Inr 2 \<and>
           get_distance_between_points ?p1 ?p2 = Inr 2 \<and> (2::real) \<noteq> 0 \<and> (2::real) \<noteq> 0"
    by (simp add: get_distance_between_points_def math_sqrt_def sqrt16)
  have f: "float_div (2 * 2 + 2 * 2 - 4 * 4) (2 * 2 * 2) = Inr ((2 * 2 + 2 * 2 - 4 * 4) / (2 * 2 * 2))"
  proof -
    from get_planar_angle_zero_distance [of ?p0 ?p1 ?p2]
    have "\<forall>a b c. get_distance_between_points ?p0 ?p2 = Inr a \<and>
            get_distance_between_points ?p0 ?p1 = Inr b \<and>
            get_distance_between_points ?p1 ?p2 = Inr c \<and> b \<noteq> 0 \<and> c \<noteq> 0
      \<longrightarrow> 2 * b * c \<noteq> 0 \<and>
          float_div (b * b + c * c - a * a) (2 * b * c) = Inr ((b * b + c * c - a * a) / (2 * b * c))"
      by (elim conjE)
    from this [rule_format, of 4 2 2, OF d] show ?thesis by (elim conjE)
  qed
  show ?thesis
    using get_planar_angle_zero_distance [of ?ua ?va ?wb] e1
      get_planar_angle_zero_distance [of ?wa ?va ?vb] e2 f
    by simp
qed

section \<open>The planar angle of colinear points in doubles\<close>

lemma round_half_even_unique:
  assumes "of_int n - 1 / 2 < x" and "x < of_int n + 1 / 2"
  shows "round_half_even x = n"
proof (cases "of_int n \<le> x")
  case True
  then have "\<lfloor>x\<rfloor> = n" using assms by (intro floor_unique) auto
  then show ?thesis using assms by (simp add: round_half_even_def Let_def)
next
  case False
  then have f: "\<lfloor>x\<rfloor> = n - 1" using assms by (intro floor_unique) auto
  have "\<not> x - of_int (n - 1) < 1 / 2" and "1 / 2 < x - of_int (n - 1)"
    using assms by auto
  then show ?thesis unfolding round_half_even_def Let_def f by simp
qed

lemma two_powr_neg: "2 powr of_int (- int k) = 1 / (2::real) ^ k"
proof -
  have "(2::real) powr of_int (- int k) = 2 powr (- real k)" by simp
  also have "\<dots> = inverse (2 powr real k)" by (rule powr_minus)
  also have "\<dots> = 1 / 2 ^ k" by (simp add: powr_realpow inverse_eq_divide)
  finally show ?thesis .
qed

lemma double_exponent_eq:
  assumes lo: "2 ^ 52 \<le> \<bar>x\<bar> * 2 ^ k" and hi: "\<bar>x\<bar> * 2 ^ k < 2 ^ 53" and k: "k \<le> 1074"
  shows "double_exponent x = - int k"
proof -
  have pos: "0 < \<bar>x\<bar>"
  proof (rule ccontr)
    assume "\<not> 0 < \<bar>x\<bar>"
    then have "\<bar>x\<bar> * 2 ^ k = 0" by simp
    with lo show False by simp
  qed
  have p1: "(2::real) powr of_int (52 - int k) = 2 ^ 52 / 2 ^ k"
  proof -
    have "(2::real) powr of_int (52 - int k) = 2 powr (52 - real k)" by simp
    also have "\<dots> = 2 powr 52 / 2 powr real k" by (rule powr_diff)
    also have "\<dots> = 2 ^ 52 / 2 ^ k" by (simp add: powr_realpow)
    finally show ?thesis .
  qed
  have p2: "(2::real) powr of_int (52 - int k + 1) = 2 ^ 53 / 2 ^ k"
  proof -
    have "(2::real) powr of_int (52 - int k + 1) = 2 powr (53 - real k)" by simp
    also have "\<dots> = 2 powr 53 / 2 powr real k" by (rule powr_diff)
    also have "\<dots> = 2 ^ 53 / 2 ^ k" by (simp add: powr_realpow)
    finally show ?thesis .
  qed
  have a: "(2::real) ^ 52 / 2 ^ k \<le> \<bar>x\<bar>"
    using lo by (simp add: pos_divide_le_eq)
  have b: "\<bar>x\<bar> < 2 ^ 53 / 2 ^ k"
    using hi by (simp add: pos_less_divide_eq)
  have "2 powr of_int (52 - int k) \<le> \<bar>x\<bar> \<and> \<bar>x\<bar> < 2 powr of_int (52 - int k + 1)"
    unfolding p1 p2 using a b by simp
  moreover have "(1::real) < 2" by simp
  ultimately have "\<lfloor>log 2 \<bar>x\<bar>\<rfloor> = 52 - int k"
    using pos floor_log_eq_powr_iff [of "\<bar>x\<bar>" 2 "52 - int k"] by blast
  then show ?thesis using k by (simp add: double_exponent_def)
qed

lemma double_round_eval:
  assumes lo: "2 ^ 52 \<le> \<bar>x\<bar> * 2 ^ k" and hi: "\<bar>x\<bar> * 2 ^ k < 2 ^ 53" and k: "k \<le> 1074"
    and n1: "of_int n - 1 / 2 < x * 2 ^ k" and n2: "x * 2 ^ k < of_int n + 1 / 2"
  shows "double_round x = of_int n / 2 ^ k"
proof -
  have nz: "x \<noteq> 0" using lo by auto
  have e: "double_exponent x = - int k" using lo hi k by (rule double_exponent_eq)
  have q: "x / 2 powr of_int (- int k) = x * 2 ^ k"
    unfolding two_powr_neg by simp
  have r: "round_half_even (x * 2 ^ k) = n" using n1 n2 by (rule round_half_even_unique)
  show ?thesis
    unfolding double_round_def e q r using nz unfolding two_powr_neg by simp
qed

lemma double_round_sqrt:
  assumes y: "0 \<le> y" and lo: "2 ^ 52 < n" and hi: "n < 2 ^ 53" and k: "k \<le> 1074"
    and n1: "(2 * of_int n - 1)\<^sup>2 < 4 * y * 4 ^ k"
    and n2: "4 * y * 4 ^ k < (2 * of_int n + 1)\<^sup>2"
  shows "double_round (sqrt y) = of_int n / 2 ^ k"
proof -
  have s: "sqrt y * 2 ^ k = sqrt (y * 4 ^ k)"
  proof -
    have "(4::real) ^ k = (2 ^ k)\<^sup>2" by (simp add: power2_eq_square power_mult_distrib [symmetric])
    then show ?thesis by (simp add: real_sqrt_mult)
  qed
  have npos: "(0::real) \<le> of_int n - 1 / 2"
  proof -
    have "(2::int) ^ 52 < n" using lo .
    then have "(1::int) \<le> n" by simp
    then have "(1::real) \<le> of_int n" by linarith
    then show ?thesis by simp
  qed
  have "(of_int n - 1 / 2 :: real)\<^sup>2 < y * 4 ^ k"
    using n1 by (simp add: power2_eq_square algebra_simps)
  then have a: "of_int n - 1 / 2 < sqrt y * 2 ^ k"
    unfolding s by (rule real_less_rsqrt)
  have "y * 4 ^ k < (of_int n + 1 / 2 :: real)\<^sup>2"
    using n2 by (simp add: power2_eq_square algebra_simps)
  moreover have "(0::real) \<le> of_int n + 1 / 2" using npos by simp
  ultimately have b: "sqrt y * 2 ^ k < of_int n + 1 / 2"
    unfolding s by (intro real_less_lsqrt)
  have nlo: "(2::real) ^ 52 + 1 \<le> of_int n"
  proof -
    have "(2::int) ^ 52 + 1 \<le> n" using lo by simp
    then have "real_of_int (2 ^ 52 + 1) \<le> of_int n" by (simp only: of_int_le_iff)
    then show ?thesis by simp
  qed
  have nhi: "of_int n + 1 \<le> (2::real) ^ 53"
  proof -
    have "n + 1 \<le> (2::int) ^ 53" using hi by simp
    then have "real_of_int (n + 1) \<le> of_int (2 ^ 53)" by (simp only: of_int_le_iff)
    then show ?thesis by simp
  qed
  have pos: "0 \<le> sqrt y * 2 ^ k" using y by simp
  have l: "2 ^ 52 \<le> \<bar>sqrt y\<bar> * 2 ^ k" using a nlo y by simp
  have h: "\<bar>sqrt y\<bar> * 2 ^ k < 2 ^ 53" using b nhi y by simp
  show ?thesis using l h k a b by (rule double_round_eval)
qed

lemma dr_m1: "double_round (- 1) = - 1"
  using double_round_eval [of "- 1" 52 "- 4503599627370496"] by simp

lemma dr_m2: "double_round (- 2) = - 2"
  using double_round_eval [of "- 2" 51 "- 4503599627370496"] by simp

lemma dr_m3: "double_round (- 3) = - 3"
  using double_round_eval [of "- 3" 51 "- 6755399441055744"] by simp

lemma dr_p1: "double_round 1 = 1"
  using double_round_eval [of "1" 52 "4503599627370496"] by simp

lemma dr_p2: "double_round 2 = 2"
  using double_round_eval [of "2" 51 "4503599627370496"] by simp

lemma dr_p3: "double_round 3 = 3"
  using double_round_eval [of "3" 51 "6755399441055744"] by simp

lemma dr_p4: "double_round 4 = 4"
  using double_round_eval [of "4" 50 "4503599627370496"] by simp

lemma dr_p8: "double_round 8 = 8"
  using double_round_eval [of "8" 49 "4503599627370496"] by simp

lemma dr_p9: "double_round 9 = 9"
  using double_round_eval [of "9" 49 "5066549580791808"] by simp

lemma dr_p12: "double_round 12 = 12"
  using double_round_eval [of "12" 49 "6755399441055744"] by simp

lemma dr_p18: "double_round 18 = 18"
  using double_round_eval [of "18" 48 "5066549580791808"] by simp

lemma dr_p27: "double_round 27 = 27"
  using double_round_eval [of "27" 48 "7599824371187712"] by simp

text \<open>The points \<open>(0,0,0)\<close>, \<open>(1,1,1)\<close>, \<open>(3,3,3)\<close> lie on a line. Their distances round to
  \<open>a\<close>, \<open>b\<close>, \<open>c\<close> below, and the quotient of the law of cosines rounds to
  \<open>-(1 + 2 ^ -52)\<close>, the double just below \<open>-1\<close>.\<close>

lemma colinear_angle_raises:
  "get_planar_angle_double libm_acos
     \<lparr>index = i0, co = \<lparr>vx = 0, vy = 0, vz = 0\<rparr>\<rparr>
     \<lparr>index = i1, co = \<lparr>vx = 1, vy = 1, vz = 1\<rparr>\<rparr>
     \<lparr>index = i2, co = \<lparr>vx = 3, vy = 3, vz = 3\<rparr>\<rparr>
   = Inl ValueError"
proof -
  let ?u = "\<lparr>index = i0, co = \<lparr>vx = 0, vy = 0, vz = 0\<rparr>\<rparr>"
  let ?v = "\<lparr>index = i1, co = \<lparr>vx = 1, vy = 1, vz = 1\<rparr>\<rparr>"
  let ?w = "\<lparr>index = i2, co = \<lparr>vx = 3, vy = 3, vz = 3\<rparr>\<rparr>"
  define b :: real where "b = 7800463371553962 / 2 ^ 52"
  define c :: real where "c = 7800463371553962 / 2 ^ 51"
  define a :: real where "a = 5850347528665472 / 2 ^ 50"
  define bb :: real where "bb = 6755399441055743 / 2 ^ 51"
  define cc :: real where "cc = 6755399441055743 / 2 ^ 49"
  define sm :: real where "sm = 8444249301319679 / 2 ^ 49"
  define nm :: real where "nm = - 6755399441055745 / 2 ^ 49"
  define q :: real where "q = - 4503599627370497 / 2 ^ 52"
  have sb: "double_round (sqrt 3) = b"
    unfolding b_def using double_round_sqrt [of 3 7800463371553962 52] by simp
  have sc: "double_round (sqrt 12) = c"
    unfolding c_def using double_round_sqrt [of 12 7800463371553962 51] by simp
  have sa: "double_round (sqrt 27) = a"
    unfolding a_def using double_round_sqrt [of 27 5850347528665472 50] by simp
  have rbb: "double_round (b * b) = bb"
    unfolding b_def bb_def
    using double_round_eval
      [of "7800463371553962 / 2 ^ 52 * (7800463371553962 / 2 ^ 52)" 51 6755399441055743]
    by simp
  have rcc: "double_round (c * c) = cc"
    unfolding c_def cc_def
    using double_round_eval
      [of "7800463371553962 / 2 ^ 51 * (7800463371553962 / 2 ^ 51)" 49 6755399441055743]
    by simp
  have raa: "double_round (a * a) = 27"
    unfolding a_def
    using double_round_eval
      [of "5850347528665472 / 2 ^ 50 * (5850347528665472 / 2 ^ 50)" 48 7599824371187712]
    by simp
  have r2b: "double_round (2 * b) = c"
    unfolding b_def c_def
    using double_round_eval [of "2 * (7800463371553962 / 2 ^ 52)" 51 7800463371553962]
    by simp
  have rsum: "double_round (bb + cc) = sm"
    unfolding bb_def cc_def sm_def
    using double_round_eval
      [of "6755399441055743 / 2 ^ 51 + 6755399441055743 / 2 ^ 49" 49 8444249301319679]
    by simp
  have rnum: "double_round (sm - 27) = nm"
    unfolding sm_def nm_def
    using double_round_eval [of "8444249301319679 / 2 ^ 49 - 27" 49 "- 6755399441055745"]
    by simp
  have rquot: "double_round (nm / cc) = q"
    unfolding nm_def cc_def q_def
    using double_round_eval
      [of "- 6755399441055745 / 2 ^ 49 / (6755399441055743 / 2 ^ 49)" 52 "- 4503599627370497"]
    by simp
  have nz: "b \<noteq> 0" "c \<noteq> 0" "cc \<noteq> 0"
    unfolding b_def c_def cc_def by simp_all
  have below: "q < - 1" unfolding q_def by simp
  have db: "get_distance_between_points_double ?u ?v = Inr b"
    by (simp add: get_distance_between_points_double_def math_sqrt_double_def math_pow_def
        double_add_def double_sub_def dr_m1 dr_p1 dr_p2 dr_p3 sb)
  have dc: "get_distance_between_points_double ?v ?w = Inr c"
    by (simp add: get_distance_between_points_double_def math_sqrt_double_def math_pow_def
        double_add_def double_sub_def dr_m2 dr_p4 dr_p8 dr_p12 sc)
  have da: "get_distance_between_points_double ?u ?w = Inr a"
    by (simp add: get_distance_between_points_double_def math_sqrt_double_def math_pow_def
        double_add_def double_sub_def dr_m3 dr_p9 dr_p18 dr_p27 sa)
  show ?thesis
    unfolding get_planar_angle_double_def da db dc
    by (simp add: nz double_mul_def double_add_def double_sub_def double_div_def
        rbb rcc raa r2b rsum rnum rquot math_acos_double_def below)
qed

lemma colinear_collapse_raises:
  "collapse_points_on_line libm_acos
     \<lparr>index = i0, co = \<lparr>vx = 0, vy = 0, vz = 0\<rparr>\<rparr>
     \<lparr>index = i1, co = \<lparr>vx = 1, vy = 1, vz = 1\<rparr>\<rparr>
     \<lparr>index = i2, co = \<lparr>vx = 3, vy = 3, vz = 3\<rparr>\<rparr> angle
   = Inl ValueError"
  by (simp add: collapse_points_on_line_def colinear_angle_raises)

text \<open>
  Claim C1 fails on the code at points that lie on a line: for \<open>v0 = (0,0,0)\<close>,
  \<open>v1 = (1,1,1)\<close>, \<open>v2 = (3,3,3)\<close>, where \<open>v2 - v0 = 3 (v1 - v0)\<close>, the quotient passed to
  \<^verbatim>\<open>math.acos\<close> is below \<open>-1\<close> in doubles, so \<^verbatim>\<open>collapse_points_on_line\<close> raises
  ValueError for every threshold and collapses nothing.
\<close>

theorem collapse_points_on_line_colinear_raises:
  "collapse_points_on_line libm_acos
     \<lparr>index = 0, co = \<lparr>vx = 0, vy = 0, vz = 0\<rparr>\<rparr>
     \<lparr>index = 1, co = \<lparr>vx = 1, vy = 1, vz = 1\<rparr>\<rparr>
     \<lparr>index = 2, co = \<lparr>vx = 3, vy = 3, vz = 3\<rparr>\<rparr> angle
   = Inl ValueError"
  by (rule colinear_collapse_raises)

section \<open>The collapse loop on a straight line\<close>

text \<open>
  Claim C5 fails on the code for the same reason as claim C1: on the line with the
  vertices \<open>(0,0,0)\<close>, \<open>(1,1,1)\<close>, \<open>(3,3,3)\<close> and the edges \<open>(0,1)\<close>, \<open>(1,2)\<close> the loop skips
  vertex 0, which has one neighbor, and raises ValueError at vertex 1, whose two
  neighbors are in line with it. Vertex 2 is never visited and the mesh is not written
  back.
\<close>

theorem collapse_edges_in_order_colinear_raises:
  "collapse_edges_in_order libm_acos remove_doubles
     \<lparr>vertices = [\<lparr>vx = 0, vy = 0, vz = 0\<rparr>, \<lparr>vx = 1, vy = 1, vz = 1\<rparr>,
                  \<lparr>vx = 3, vy = 3, vz = 3\<rparr>],
      mesh_edges = [(0, 1), (1, 2)]\<rparr> angle
   = Inl ValueError"
proof -
  let ?m = "\<lparr>vertices = [\<lparr>vx = 0, vy = 0, vz = 0\<rparr>, \<lparr>vx = 1, vy = 1, vz = 1\<rparr>,
                  \<lparr>vx = 3, vy = 3, vz = 3\<rparr>],
      mesh_edges = [(0, 1), (1, 2)]\<rparr>"
  define bm where "bm = get_bmesh_for_object ?m"
  have vs: "verts bm = [\<lparr>index = 0, co = \<lparr>vx = 0, vy = 0, vz = 0\<rparr>\<rparr>,
                        \<lparr>index = 1, co = \<lparr>vx = 1, vy = 1, vz = 1\<rparr>\<rparr>,
                        \<lparr>index = 2, co = \<lparr>vx = 3, vy = 3, vz = 3\<rparr>\<rparr>]"
    by (simp add: bm_def get_bmesh_for_object_def upt_rec numeral_2_eq_2 numeral_3_eq_3)
  have es: "edges bm = [(0, 1), (1, 2)]"
    by (simp add: bm_def get_bmesh_for_object_def)
  have n0: "get_vertex_neighbors bm 0 = [1]" and n1: "get_vertex_neighbors bm 1 = [0, 2]"
    by (simp_all add: get_vertex_neighbors_def es)
  have s0: "collapse_vertex libm_acos angle 0 bm = Inr bm"
    by (simp add: collapse_vertex_def Let_def vs n0)
  have s1: "collapse_vertex libm_acos angle 1 bm = Inl ValueError"
    using colinear_collapse_raises [of libm_acos 0 1 2 angle]
    by (simp add: collapse_vertex_def Let_def vs n1 verts_at_def del: One_nat_def)
  have up: "[0..<length (verts bm)] = [0, 1, 2]"
    by (simp add: vs upt_rec numeral_2_eq_2 numeral_3_eq_3)
  have "collapse_loop libm_acos angle [0, 1, 2] bm = Inl ValueError"
    by (simp only: collapse_loop.simps s0 s1 sum.case)
  then show ?thesis
    unfolding collapse_edges_in_order_def Let_def bm_def [symmetric] up by simp
qed

section \<open>Properties of selection, deletion and import\<close>

lemma delete_all_cameras_object_mode:
  "mode s = ''OBJECT'' \<Longrightarrow>
   \<exists>s'. delete_all_cameras s = Inr s' \<and>
        objects s' = map (\<lambda>ob. ob\<lparr>select := False\<rparr>)
                       (filter (\<lambda>ob. type ob \<noteq> ''CAMERA'') (objects s)) \<and>
        mode s' = mode s"
  by (simp add: delete_all_cameras_def delete_selected_objects_def bpy_ops_object_delete_def
      bpy_ops_object_select_all_def filter_map comp_def)

lemmas delete_all_cameras_eval =
  delete_all_cameras_def delete_selected_objects_def bpy_ops_object_delete_def
  bpy_ops_object_select_all_def

lemma delete_all_cameras_other_mode:
  "mode s \<noteq> ''OBJECT'' \<Longrightarrow> delete_all_cameras s = Inl RuntimeError"
  by (simp add: delete_all_cameras_def bpy_ops_object_select_all_def)

text \<open>
  Claim C9, as stated, fails where it says that every non-camera object is left
  unchanged: \<^verbatim>\<open>delete_all_cameras\<close> starts by deselecting everything, so a selected mesh
  is no longer selected after the call.
\<close>

theorem delete_all_cameras_unchanged_counterexample:
  "delete_all_cameras
     \<lparr>objects =
        [\<lparr>name = ''Model'', type = ''MESH'', select = True, layers = replicate 20 True,
          location = \<lparr>vx = 0, vy = 0, vz = 0\<rparr>\<rparr>,
         \<lparr>name = ''Camera'', type = ''CAMERA'', select = False, layers = replicate 20 True,
          location = \<lparr>vx = 1, vy = 1, vz = 1\<rparr>\<rparr>],
      active = None, mode = ''OBJECT''\<rparr>
   = Inr \<lparr>objects =
        [\<lparr>name = ''Model'', type = ''MESH'', select = False, layers = replicate 20 True,
          location = \<lparr>vx = 0, vy = 0, vz = 0\<rparr>\<rparr>],
      active = None, mode = ''OBJECT''\<rparr> \<and>
   \<lparr>name = ''Model'', type = ''MESH'', select = False, layers = replicate 20 True,
    location = \<lparr>vx = 0, vy = 0, vz = 0\<rparr>\<rparr>
   \<noteq> \<lparr>name = ''Model'', type = ''MESH'', select = True, layers = replicate 20 True,
      location = \<lparr>vx = 0, vy = 0, vz = 0\<rparr>\<rparr>"
  by (simp add: delete_all_cameras_eval)

text \<open>
  Claim C9, amended. In object mode \<^verbatim>\<open>delete_all_cameras\<close> returns, and the objects of the
  scene are then exactly the objects that were not of type CAMERA, in their order, each
  with its selection flag cleared and every other attribute as before; no camera remains
  and the mode is kept. Outside object mode the host refuses the first operator: the call
  raises RuntimeError and nothing is deleted.
\<close>

theorem delete_all_cameras_frame:
  "(mode s = ''OBJECT'' \<longrightarrow>
      (\<exists>s'. delete_all_cameras s = Inr s' \<and>
            objects s' = map (\<lambda>ob. ob\<lparr>select := False\<rparr>)
                           (filter (\<lambda>ob. type ob \<noteq> ''CAMERA'') (objects s)) \<and>
            list_all (\<lambda>ob. type ob \<noteq> ''CAMERA'') (objects s') \<and>
            mode s' = mode s)) \<and>
   (mode s \<noteq> ''OBJECT'' \<longrightarrow> delete_all_cameras s = Inl RuntimeError)"
proof (intro conjI impI)
  assume m: "mode s = ''OBJECT''"
  from delete_all_cameras_object_mode [OF m] obtain s' where
    r: "delete_all_cameras s = Inr s'"
    and o: "objects s' = map (\<lambda>ob. ob\<lparr>select := False\<rparr>)
                           (filter (\<lambda>ob. type ob \<noteq> ''CAMERA'') (objects s))"
    and k: "mode s' = mode s"
    by blast
  have "list_all (\<lambda>ob. type ob \<noteq> ''CAMERA'') (objects s')"
    by (simp add: o list_all_iff)
  with r o k show "\<exists>s'. delete_all_cameras s = Inr s' \<and>
            objects s' = map (\<lambda>ob. ob\<lparr>select := False\<rparr>)
                           (filter (\<lambda>ob. type ob \<noteq> ''CAMERA'') (objects s)) \<and>
            list_all (\<lambda>ob. type ob \<noteq> ''CAMERA'') (objects s') \<and>
            mode s' = mode s"
    by blast
next
  assume "mode s \<noteq> ''OBJECT''"
  then show "delete_all_cameras s = Inl RuntimeError"
    by (rule delete_all_cameras_other_mode)
qed

theorem delete_all_cameras_frame_witness:
  "(\<exists>s'. delete_all_cameras
        \<lparr>objects =
           [\<lparr>name = ''Camera'', type = ''CAMERA'', select = False, layers = replicate 20 True,
             location = \<lparr>vx = 1, vy = 1, vz = 1\<rparr>\<rparr>,
            \<lparr>name = ''Model'', type = ''MESH'', select = True, layers = replicate 20 True,
             location = \<lparr>vx = 0, vy = 0, vz = 0\<rparr>\<rparr>,
            \<lparr>name = ''Lamp'', type = ''LAMP'', select = False, layers = replicate 20 True,
             location = \<lparr>vx = 2, vy = 2, vz = 2\<rparr>\<rparr>],
         active = Some ''Camera'', mode = ''OBJECT''\<rparr> = Inr s' \<and>
      objects s' =
        [\<lparr>name = ''Model'', type = ''MESH'', select = False, layers = replicate 20 True,
          location = \<lparr>vx = 0, vy = 0, vz = 0\<rparr>\<rparr>,
         \<lparr>name = ''Lamp'', type = ''LAMP'', select = False, layers = replicate 20 True,
          location = \<lparr>vx = 2, vy = 2, vz = 2\<rparr>\<rparr>]) \<and>
   delete_all_cameras
        \<lparr>objects =
           [\<lparr>name = ''Camera'', type = ''CAMERA'', select = False, layers = replicate 20 True,
             location = \<lparr>vx = 1, vy = 1, vz = 1\<rparr>\<rparr>],
         active = None, mode = ''EDIT''\<rparr> = Inl RuntimeError"
proof -
  let ?s = "\<lparr>objects =
           [\<lparr>name = ''Camera'', type = ''CAMERA'', select = False, layers = replicate 20 True,
             location = \<lparr>vx = 1, vy = 1, vz = 1\<rparr>\<rparr>,
            \<lparr>name = ''Model'', type = ''MESH'', select = True, layers = replicate 20 True,
             location = \<lparr>vx = 0, vy = 0, vz = 0\<rparr>\<rparr>,
            \<lparr>name = ''Lamp'', type = ''LAMP'', select = False, layers = replicate 20 True,
             location = \<lparr>vx = 2, vy = 2, vz = 2\<rparr>\<rparr>],
         active = Some ''Camera'', mode = ''OBJECT''\<rparr>"
  let ?t = "\<lparr>objects =
           [\<lparr>name = ''Camera'', type = ''CAMERA'', select = False, layers = replicate 20 True,
             location = \<lparr>vx = 1, vy = 1, vz = 1\<rparr>\<rparr>],
         active = None, mode = ''EDIT''\<rparr>"
  have ms: "mode ?s = ''OBJECT''" and mt: "mode ?t \<noteq> ''OBJECT''" by simp_all
  from delete_all_cameras_frame [of ?s] ms obtain s' where
    r: "delete_all_cameras ?s = Inr s'"
    and o: "objects s' = map (\<lambda>ob. ob\<lparr>select := False\<rparr>)
                           (filter (\<lambda>ob. type ob \<noteq> ''CAMERA'') (objects ?s))"
    by blast
  from o have "objects s' =
        [\<lparr>name = ''Model'', type = ''MESH'', select = False, layers = replicate 20 True,
          location = \<lparr>vx = 0, vy = 0, vz = 0\<rparr>\<rparr>,
         \<lparr>name = ''Lamp'', type = ''LAMP'', select = False, layers = replicate 20 True,
          location = \<lparr>vx = 2, vy = 2, vz = 2\<rparr>\<rparr>]"
    by simp
  moreover from delete_all_cameras_frame [of ?t] mt
  have "delete_all_cameras ?t = Inl RuntimeError" by blast
  ultimately show ?thesis using r by blast
qed

text \<open>
  Claim C2, as stated, fails when nothing remains: a file that holds only a camera,
  imported into an empty scene, leaves no object, and \<^verbatim>\<open>import_agisoft_scan\<close> raises
  although not more than one object remains.
\<close>

theorem import_agisoft_scan_empty_counterexample:
  "import_agisoft_scan
     (\<lambda>fp s. Inr (s\<lparr>objects := objects s @
        [\<lparr>name = ''Camera'', type = ''CAMERA'', select = False, layers = replicate 20 True,
          location = \<lparr>vx = 1, vy = 1, vz = 1\<rparr>\<rparr>]\<rparr>))
     ''scan.fbx'' \<lparr>objects = [], active = None, mode = ''OBJECT''\<rparr>
   = Inl ValueError \<and>
   delete_all_cameras
        \<lparr>objects =
           [\<lparr>name = ''Camera'', type = ''CAMERA'', select = False, layers = replicate 20 True,
             location = \<lparr>vx = 1, vy = 1, vz = 1\<rparr>\<rparr>],
         active = None, mode = ''OBJECT''\<rparr>
   = Inr \<lparr>objects = [], active = None, mode = ''OBJECT''\<rparr> \<and>
   \<not> 1 < length (objects \<lparr>objects = [], active = None, mode = ''OBJECT''\<rparr>)"
  by (simp add: import_agisoft_scan_def import_fbx_def delete_all_cameras_eval)

text \<open>
  Claim C2, amended. When the import succeeds and leaves the scene in object mode,
  \<^verbatim>\<open>import_agisoft_scan\<close> raises (a ValueError) exactly when the number of objects that
  remain after the cameras are deleted, the objects of another type, is different from
  one; when exactly one remains it returns that object, deselected, which is then the only
  object of the scene. When the import leaves the scene in another mode the cameras
  cannot be deleted and the host's RuntimeError is raised.
\<close>

theorem import_agisoft_scan_single:
  assumes "import_scene_fbx fbx_filepath s = Inr s1"
  shows "(mode s1 = ''OBJECT'' \<longrightarrow>
           ((\<exists>e. import_agisoft_scan import_scene_fbx fbx_filepath s = Inl e) \<longleftrightarrow>
              length (filter (\<lambda>ob. type ob \<noteq> ''CAMERA'') (objects s1)) \<noteq> 1) \<and>
           (length (filter (\<lambda>ob. type ob \<noteq> ''CAMERA'') (objects s1)) \<noteq> 1 \<longrightarrow>
              import_agisoft_scan import_scene_fbx fbx_filepath s = Inl ValueError) \<and>
           (\<forall>ob. filter (\<lambda>ob. type ob \<noteq> ''CAMERA'') (objects s1) = [ob] \<longrightarrow>
              (\<exists>s2. delete_all_cameras s1 = Inr s2 \<and>
                 import_agisoft_scan import_scene_fbx fbx_filepath s =
                   Inr (ob\<lparr>select := False\<rparr>, s2) \<and>
                 objects s2 = [ob\<lparr>select := False\<rparr>]))) \<and>
         (mode s1 \<noteq> ''OBJECT'' \<longrightarrow>
            import_agisoft_scan import_scene_fbx fbx_filepath s = Inl RuntimeError)"
proof (intro conjI impI)
  assume m: "mode s1 = ''OBJECT''"
  from delete_all_cameras_object_mode [OF m] obtain s2 where
    d: "delete_all_cameras s1 = Inr s2"
    and o: "objects s2 = map (\<lambda>ob. ob\<lparr>select := False\<rparr>)
                           (filter (\<lambda>ob. type ob \<noteq> ''CAMERA'') (objects s1))"
    by blast
  show "(\<exists>e. import_agisoft_scan import_scene_fbx fbx_filepath s = Inl e) \<longleftrightarrow>
          length (filter (\<lambda>ob. type ob \<noteq> ''CAMERA'') (objects s1)) \<noteq> 1"
    using assms by (simp add: import_agisoft_scan_def import_fbx_def d o)
next
  assume m: "mode s1 = ''OBJECT''"
    and n: "length (filter (\<lambda>ob. type ob \<noteq> ''CAMERA'') (objects s1)) \<noteq> 1"
  from delete_all_cameras_object_mode [OF m] obtain s2 where
    d: "delete_all_cameras s1 = Inr s2"
    and o: "objects s2 = map (\<lambda>ob. ob\<lparr>select := False\<rparr>)
                           (filter (\<lambda>ob. type ob \<noteq> ''CAMERA'') (objects s1))"
    by blast
  show "import_agisoft_scan import_scene_fbx fbx_filepath s = Inl ValueError"
    using assms n by (simp add: import_agisoft_scan_def import_fbx_def d o)
next
  assume m: "mode s1 = ''OBJECT''"
  from delete_all_cameras_object_mode [OF m] obtain s2 where
    d: "delete_all_cameras s1 = Inr s2"
    and o: "objects s2 = map (\<lambda>ob. ob\<lparr>select := False\<rparr>)
                           (filter (\<lambda>ob. type ob \<noteq> ''CAMERA'') (objects s1))"
    by blast
  show "\<forall>ob. filter (\<lambda>ob. type ob \<noteq> ''CAMERA'') (objects s1) = [ob] \<longrightarrow>
          (\<exists>s2. delete_all_cameras s1 = Inr s2 \<and>
             import_agisoft_scan import_scene_fbx fbx_filepath s =
               Inr (ob\<lparr>select := False\<rparr>, s2) \<and>
             objects s2 = [ob\<lparr>select := False\<rparr>])"
    using assms by (simp add: import_agisoft_scan_def import_fbx_def d o)
next
  assume "mode s1 \<noteq> ''OBJECT''"
  then show "import_agisoft_scan import_scene_fbx fbx_filepath s = Inl RuntimeError"
    using assms
    by (simp add: import_agisoft_scan_def import_fbx_def delete_all_cameras_other_mode)
qed

theorem import_agisoft_scan_single_witness:
  "(\<exists>s'. import_agisoft_scan
     (\<lambda>fp s. Inr (s\<lparr>objects := objects s @
        [\<lparr>name = ''Camera'', type = ''CAMERA'', select = False, layers = replicate 20 True,
          location = \<lparr>vx = 1, vy = 1, vz = 1\<rparr>\<rparr>,
         \<lparr>name = ''Model'', type = ''MESH'', select = True, layers = replicate 20 True,
          location = \<lparr>vx = 0, vy = 0, vz = 0\<rparr>\<rparr>]\<rparr>))
     ''scan.fbx'' \<lparr>objects = [], active = None, mode = ''OBJECT''\<rparr>
   = Inr (\<lparr>name = ''Model'', type = ''MESH'', select = False, layers = replicate 20 True,
          location = \<lparr>vx = 0, vy = 0, vz = 0\<rparr>\<rparr>, s'))"
proof -
  let ?cam = "\<lparr>name = ''Camera'', type = ''CAMERA'', select = False, layers = replicate 20 True,
          location = \<lparr>vx = 1, vy = 1, vz = 1\<rparr>\<rparr>"
  let ?model = "\<lparr>name = ''Model'', type = ''MESH'', select = True, layers = replicate 20 True,
          location = \<lparr>vx = 0, vy = 0, vz = 0\<rparr>\<rparr>"
  let ?imp = "\<lambda>(fp::string) s. (Inr (s\<lparr>objects := objects s @ [?cam, ?model]\<rparr>) :: error + Scene)"
  let ?s = "\<lparr>objects = [], active = None, mode = ''OBJECT''\<rparr>"
  let ?sa = "\<lparr>objects = [?cam, ?model], active = None, mode = ''OBJECT''\<rparr>"
  have h: "?imp ''scan.fbx'' ?s = Inr ?sa" by simp
  have m: "mode ?sa = ''OBJECT''" by simp
  have f: "filter (\<lambda>ob. type ob \<noteq> ''CAMERA'') (objects ?sa) = [?model]" by simp
  from import_agisoft_scan_single [of ?imp "''scan.fbx''" ?s ?sa, OF h] m f
  obtain s2 where "import_agisoft_scan ?imp ''scan.fbx'' ?s = Inr (?model\<lparr>select := False\<rparr>, s2)"
    by blast
  then show ?thesis by simp
qed




section \<open>Properties of the layers\<close>

lemma cleared_0: "cleared i 0 bs = bs"
  by (simp add: cleared_def map_nth)

lemma length_cleared: "length (cleared i m bs) = length bs"
  by (simp add: cleared_def)

lemma cleared_Suc_other:
  "m < length bs \<Longrightarrow> int m \<noteq> i \<Longrightarrow> (cleared i m bs)[m := False] = cleared i (Suc m) bs"
  by (rule nth_equalityI) (auto simp: cleared_def nth_list_update less_Suc_eq)

lemma cleared_Suc_same:
  "m < length bs \<Longrightarrow> int m = i \<Longrightarrow> cleared i m bs = cleared i (Suc m) bs"
  by (rule nth_equalityI) (auto simp: cleared_def less_Suc_eq)

lemma move_layers_fold:
  "m \<le> length (layers ob0) \<Longrightarrow>
   fold (\<lambda>index ob. if int index \<noteq> i
                      then ob\<lparr>layers := (layers ob)[index := False]\<rparr>
                      else ob) [0..<m] ob0
   = ob0\<lparr>layers := cleared i m (layers ob0)\<rparr>"
proof (induction m)
  case 0
  then show ?case by (simp add: cleared_0)
next
  case (Suc m)
  then have le: "m \<le> length (layers ob0)" and lt: "m < length (layers ob0)" by simp_all
  show ?case
  proof (cases "int m = i")
    case True
    then show ?thesis
      using cleared_Suc_same [OF lt True] by (simp add: Suc.IH [OF le])
  next
    case False
    then show ?thesis
      using cleared_Suc_other [OF lt False] by (simp add: Suc.IH [OF le])
  qed
qed

lemma cleared_all:
  "k < length bs \<Longrightarrow>
   cleared (int k) (length bs) (bs[k := True]) = (replicate (length bs) False)[k := True]"
  by (rule nth_equalityI) (auto simp: cleared_def nth_list_update)

text \<open>
  Claim C10. For a layer number from 0 to the number of layers (with at least ten layers
  when the number is 0), \<^verbatim>\<open>move_object_to_layer\<close> returns the object with exactly one
  layer set: the one at index \<open>layer - 1\<close>, or at index 9 when the number is 0. Every
  other entry is False and no other attribute changes.
\<close>

theorem move_object_to_layer_single:
  assumes "0 \<le> layer" and "layer \<le> int (length (layers obj))"
    and "layer = 0 \<longrightarrow> 10 \<le> length (layers obj)"
  shows "move_object_to_layer obj layer =
           Inr (obj\<lparr>layers := (replicate (length (layers obj)) False)
                                [(if layer = 0 then 9 else nat (layer - 1)) := True]\<rparr>)"
proof -
  let ?n = "length (layers obj)"
  define i where "i = (if layer = 0 then 9 else layer - 1)"
  define k where "k = (if layer = 0 then 9 else nat (layer - 1))"
  have k: "k < ?n" and i: "i = int k" using assms by (auto simp: i_def k_def)
  have ix: "py_index ?n i = Inr k"
    using k i by (auto simp: py_index_def)
  have "move_object_to_layer obj layer =
          Inr (fold (\<lambda>index ob. if int index \<noteq> i
                                  then ob\<lparr>layers := (layers ob)[index := False]\<rparr>
                                  else ob)
                    [0..<?n] (obj\<lparr>layers := (layers obj)[k := True]\<rparr>))"
    unfolding move_object_to_layer_def Let_def i_def [symmetric] ix by simp
  also have "\<dots> = Inr (obj\<lparr>layers := cleared i ?n ((layers obj)[k := True])\<rparr>)"
    by (subst move_layers_fold) simp_all
  also have "\<dots> = Inr (obj\<lparr>layers := (replicate ?n False)[k := True]\<rparr>)"
    using cleared_all [OF k] by (simp add: i)
  finally show ?thesis unfolding k_def .
qed

theorem move_object_to_layer_single_witness:
  "move_object_to_layer
     \<lparr>name = ''Model'', type = ''MESH'', select = False,
      layers = True # True # replicate 18 False,
      location = \<lparr>vx = 0, vy = 0, vz = 0\<rparr>\<rparr> 0
   = Inr \<lparr>name = ''Model'', type = ''MESH'', select = False,
          layers = replicate 9 False @ True # replicate 10 False,
          location = \<lparr>vx = 0, vy = 0, vz = 0\<rparr>\<rparr> \<and>
   move_object_to_layer
     \<lparr>name = ''Model'', type = ''MESH'', select = False,
      layers = True # True # replicate 18 False,
      location = \<lparr>vx = 0, vy = 0, vz = 0\<rparr>\<rparr> 20
   = Inr \<lparr>name = ''Model'', type = ''MESH'', select = False,
          layers = replicate 19 False @ [True],
          location = \<lparr>vx = 0, vy = 0, vz = 0\<rparr>\<rparr>"
proof -
  let ?ob = "\<lparr>name = ''Model'', type = ''MESH'', select = False,
      layers = True # True # replicate 18 False,
      location = \<lparr>vx = 0, vy = 0, vz = 0\<rparr>\<rparr>"
  have n: "length (layers ?ob) = 20" by simp
  have h1: "(0::int) \<le> 0" "(0::int) \<le> int (length (layers ?ob))"
    "(0::int) = 0 \<longrightarrow> 10 \<le> length (layers ?ob)" by simp_all
  have h2: "(0::int) \<le> 20" "(20::int) \<le> int (length (layers ?ob))"
    "(20::int) = 0 \<longrightarrow> 10 \<le> length (layers ?ob)" by simp_all
  show ?thesis
    using move_object_to_layer_single [OF h1] move_object_to_layer_single [OF h2]
    by (simp add: numeral_eq_Suc)
qed

section \<open>Properties of the UV assignment\<close>

lemma assign_uvs_last:
  "list_all (\<lambda>a. fst a < length d) as \<Longrightarrow>
   \<exists>d'. assign_uvs as d = Inr d' \<and> length d' = length d \<and>
        (\<forall>j<length d. d' ! j = (case map_of (rev as) j of Some p \<Rightarrow> p | None \<Rightarrow> d ! j))"
proof (induction as arbitrary: d)
  case Nil
  then show ?case by simp
next
  case (Cons a as)
  obtain k p where a: "a = (k, p)" by (cases a)
  from Cons.prems a have k: "k < length d" and rest: "list_all (\<lambda>a. fst a < length (d[k := p])) as"
    by simp_all
  from Cons.IH [OF rest] obtain d' where
    r: "assign_uvs as (d[k := p]) = Inr d'" and l: "length d' = length d"
    and v: "\<forall>j<length d. d' ! j = (case map_of (rev as) j of Some q \<Rightarrow> q | None \<Rightarrow> d[k := p] ! j)"
    by auto
  have "assign_uvs (a # as) d = Inr d'" using a k r by simp
  moreover have "\<forall>j<length d. d' ! j = (case map_of (rev (a # as)) j of Some q \<Rightarrow> q | None \<Rightarrow> d ! j)"
    using v a k by (auto simp: map_add_def nth_list_update split: option.splits)
  ultimately show ?case using l by blast
qed

lemma less_six: "(k::nat) < 6 \<Longrightarrow> k = 0 \<or> k = 1 \<or> k = 2 \<or> k = 3 \<or> k = 4 \<or> k = 5"
  by arith

text \<open>
  Claim C6. On the 24 loops of the cube, the UV assignments of \<^verbatim>\<open>render_360_for_camera\<close>
  succeed and give the \<open>k\<close>-th face, in the order \<open>+X, -X, +Y, -Y, +Z, -Z\<close>, the strip
  from \<open>u = k/6\<close> to \<open>u = (k+1)/6\<close>: its first two loops get \<open>(k/6, 0)\<close> and \<open>(k/6, 1)\<close>,
  its last two \<open>((k+1)/6, 0)\<close> and \<open>((k+1)/6, 1)\<close>. The result depends on no camera.
\<close>

theorem render_360_for_camera_uv_strips:
  assumes "length d = 24"
  shows "\<exists>d'. render_360_for_camera_uvs d = Inr d' \<and> length d' = 24 \<and>
           (\<forall>k<6. case cube_faces ! k of (k0, k1, k2, k3) \<Rightarrow>
                     d' ! k0 = (real k / 6, 0) \<and> d' ! k1 = (real k / 6, 1) \<and>
                     d' ! k2 = (real (k + 1) / 6, 0) \<and> d' ! k3 = (real (k + 1) / 6, 1))"
proof -
  define as where "as = fst (face_uvs 0 8 11 9 10) @ fst (face_uvs (1 / 6) 0 3 1 2) @
     fst (face_uvs (2 / 6) 4 7 5 6) @ fst (face_uvs (3 / 6) 12 15 13 14) @
     fst (face_uvs (4 / 6) 20 23 21 22) @ fst (face_uvs (5 / 6) 16 19 17 18)"
  have run: "render_360_for_camera_uvs d = assign_uvs as d"
    by (simp add: render_360_for_camera_uvs_def face_uvs_def as_def)
  have "list_all (\<lambda>a. fst a < length d) as"
    by (simp add: as_def face_uvs_def assms)
  from assign_uvs_last [OF this] obtain d' where
    r: "assign_uvs as d = Inr d'" and l: "length d' = 24"
    and v: "\<forall>j<24. d' ! j = (case map_of (rev as) j of Some p \<Rightarrow> p | None \<Rightarrow> d ! j)"
    using assms by auto
  have val: "\<And>j. j < 24 \<Longrightarrow> d' ! j = (case map_of (rev as) j of Some p \<Rightarrow> p | None \<Rightarrow> d ! j)"
    using v by blast
  have "\<forall>k<6. case cube_faces ! k of (k0, k1, k2, k3) \<Rightarrow>
                     d' ! k0 = (real k / 6, 0) \<and> d' ! k1 = (real k / 6, 1) \<and>
                     d' ! k2 = (real (k + 1) / 6, 0) \<and> d' ! k3 = (real (k + 1) / 6, 1)"
  proof (intro allI impI)
    fix k :: nat
    assume "k < 6"
    then consider "k = 0" | "k = 1" | "k = 2" | "k = 3" | "k = 4" | "k = 5"
      using less_six by blast
    then show "case cube_faces ! k of (k0, k1, k2, k3) \<Rightarrow>
                     d' ! k0 = (real k / 6, 0) \<and> d' ! k1 = (real k / 6, 1) \<and>
                     d' ! k2 = (real (k + 1) / 6, 0) \<and> d' ! k3 = (real (k + 1) / 6, 1)"
      by cases (simp_all add: cube_faces_def val as_def face_uvs_def)
  qed
  with run r l show ?thesis by simp
qed


theorem render_360_for_camera_uv_strips_witness:
  "\<exists>d'. render_360_for_camera_uvs (replicate 24 (0, 0)) = Inr d' \<and>
        d' ! 8 = (0, 0) \<and> d' ! 11 = (0, 1) \<and> d' ! 9 = (1 / 6, 0) \<and> d' ! 10 = (1 / 6, 1) \<and>
        d' ! 0 = (1 / 6, 0) \<and> d' ! 2 = (2 / 6, 1) \<and>
        d' ! 16 = (5 / 6, 0) \<and> d' ! 18 = (1, 1)"
proof -
  have h: "length (replicate 24 (0::real, 0::real)) = 24" by simp
  from render_360_for_camera_uv_strips [OF h] obtain d' where
    r: "render_360_for_camera_uvs (replicate 24 (0, 0)) = Inr d'"
    and v: "\<forall>k<6. case cube_faces ! k of (k0, k1, k2, k3) \<Rightarrow>
                     d' ! k0 = (real k / 6, 0) \<and> d' ! k1 = (real k / 6, 1) \<and>
                     d' ! k2 = (real (k + 1) / 6, 0) \<and> d' ! k3 = (real (k + 1) / 6, 1)"
    by blast
  from v [rule_format, of 0] v [rule_format, of 1] v [rule_format, of 5]
  have "d' ! 8 = (0, 0) \<and> d' ! 11 = (0, 1) \<and> d' ! 9 = (1 / 6, 0) \<and> d' ! 10 = (1 / 6, 1) \<and>
        d' ! 0 = (1 / 6, 0) \<and> d' ! 2 = (2 / 6, 1) \<and>
        d' ! 16 = (5 / 6, 0) \<and> d' ! 18 = (1, 1)"
    by (simp add: cube_faces_def)
  with r show ?thesis by blast
qed

end
